theory Spec2Isabelle
  imports Complex_Main
begin

section \<open>Data model of the system slice\<close>

text \<open>
  Values found in a plain JavaScript object: the persisted shape handed to the
  migration is untyped, and the progress image carried by a progress event is
  passed through without being inspected.
\<close>

datatype json =
    JNull
  | JBool bool
  | JNum real
  | JStr string
  | JArr "json list"
  | JObj "(string \<times> json) list"

text \<open>The record stored in \<open>denoiseProgress\<close> by the progress handler.\<close>

record denoise_progress =
  step :: int
  total_steps :: int
  order :: int
  percentage :: real
  progress_image :: json
  session_id :: string
  batch_id :: string

text \<open>
  \<open>SystemState\<close>. The field \<open>_version\<close> is called \<open>version\<close> here, since an
  identifier cannot start with an underscore. \<open>status\<close>, \<open>consoleLogLevel\<close> and
  \<open>language\<close> are string literals in the source and stay strings;
  \<open>cancellations\<close> is an array of session ids.
\<close>

record system_state =
  version :: int
  isConnected :: bool
  shouldConfirmOnDelete :: bool
  enableImageDebugging :: bool
  denoiseProgress :: "denoise_progress option"
  shouldAntialiasProgressImage :: bool
  consoleLogLevel :: string
  shouldLogToConsole :: bool
  language :: string
  shouldUseNSFWChecker :: bool
  shouldUseWatermarker :: bool
  shouldEnableInformationalPopovers :: bool
  status :: string
  cancellations :: "string list"

definition initialSystemState :: system_state where
  "initialSystemState =
     \<lparr> version = 1,
       isConnected = False,
       shouldConfirmOnDelete = True,
       enableImageDebugging = False,
       denoiseProgress = None,
       shouldAntialiasProgressImage = False,
       consoleLogLevel = ''debug'',
       shouldLogToConsole = True,
       language = ''en'',
       shouldUseNSFWChecker = False,
       shouldUseWatermarker = False,
       shouldEnableInformationalPopovers = False,
       status = ''DISCONNECTED'',
       cancellations = [] \<rparr>"

section \<open>Actions\<close>

text \<open>
  \<open>action.payload.data\<close> of a generator progress event: the fields the handler
  destructures. The first four carry the prefix \<open>data_\<close> to keep them apart from
  the fields of \<open>denoise_progress\<close>.
\<close>

record generator_progress_data =
  data_step :: int
  data_total_steps :: int
  data_order :: int
  data_progress_image :: json
  graph_execution_state_id :: string
  queue_batch_id :: string

text \<open>\<open>action.payload.data.queue_item\<close> of a queue item status event.\<close>

record queue_item =
  queue_item_status :: string
  queue_item_session_id :: string

text \<open>
  The actions the slice handles: the nine reducers of \<open>reducers\<close>, then the nine
  cases of \<open>extraReducers\<close>, under the names of the source.
\<close>

datatype action =
    setShouldConfirmOnDelete bool
  | setEnableImageDebugging bool
  | consoleLogLevelChanged string
  | shouldLogToConsoleChanged bool
  | shouldAntialiasProgressImageChanged bool
  | languageChanged string
  | shouldUseNSFWCheckerChanged bool
  | shouldUseWatermarkerChanged bool
  | setShouldEnableInformationalPopovers bool
  | socketConnected
  | socketDisconnected
  | socketInvocationStarted
  | socketGeneratorProgress generator_progress_data
  | socketInvocationComplete
  | socketGraphExecutionStateComplete
  | socketModelLoadStarted
  | socketModelLoadCompleted
  | socketQueueItemStatusChanged queue_item

section \<open>The reducer\<close>

text \<open>
  \<open>calculateStepPercentage\<close> is imported from another module; the reducer takes it
  as its first argument. Each handler mutates the draft state in place; here it
  returns the updated state.
\<close>

type_synonym step_percentage = "int \<Rightarrow> int \<Rightarrow> int \<Rightarrow> real"

fun systemSlice_reducer :: "step_percentage \<Rightarrow> system_state \<Rightarrow> action \<Rightarrow> system_state" where
  "systemSlice_reducer calculateStepPercentage state (setShouldConfirmOnDelete payload) =
     state\<lparr>shouldConfirmOnDelete := payload\<rparr>"
| "systemSlice_reducer calculateStepPercentage state (setEnableImageDebugging payload) =
     state\<lparr>enableImageDebugging := payload\<rparr>"
| "systemSlice_reducer calculateStepPercentage state (consoleLogLevelChanged payload) =
     state\<lparr>consoleLogLevel := payload\<rparr>"
| "systemSlice_reducer calculateStepPercentage state (shouldLogToConsoleChanged payload) =
     state\<lparr>shouldLogToConsole := payload\<rparr>"
| "systemSlice_reducer calculateStepPercentage state (shouldAntialiasProgressImageChanged payload) =
     state\<lparr>shouldAntialiasProgressImage := payload\<rparr>"
| "systemSlice_reducer calculateStepPercentage state (languageChanged payload) =
     state\<lparr>language := payload\<rparr>"
| "systemSlice_reducer calculateStepPercentage state (shouldUseNSFWCheckerChanged payload) =
     state\<lparr>shouldUseNSFWChecker := payload\<rparr>"
| "systemSlice_reducer calculateStepPercentage state (shouldUseWatermarkerChanged payload) =
     state\<lparr>shouldUseWatermarker := payload\<rparr>"
| "systemSlice_reducer calculateStepPercentage state (setShouldEnableInformationalPopovers payload) =
     state\<lparr>shouldEnableInformationalPopovers := payload\<rparr>"
| "systemSlice_reducer calculateStepPercentage state socketConnected =
     state\<lparr>isConnected := True, denoiseProgress := None, status := ''CONNECTED''\<rparr>"
| "systemSlice_reducer calculateStepPercentage state socketDisconnected =
     state\<lparr>isConnected := False, denoiseProgress := None, status := ''DISCONNECTED''\<rparr>"
| "systemSlice_reducer calculateStepPercentage state socketInvocationStarted =
     state\<lparr>cancellations := [], denoiseProgress := None, status := ''PROCESSING''\<rparr>"
| "systemSlice_reducer calculateStepPercentage state (socketGeneratorProgress data) =
     (if graph_execution_state_id data \<in> set (cancellations state) then state
      else state
        \<lparr>denoiseProgress := Some
           \<lparr> step = data_step data,
             total_steps = data_total_steps data,
             order = data_order data,
             percentage =
               calculateStepPercentage (data_step data) (data_total_steps data) (data_order data),
             progress_image = data_progress_image data,
             session_id = graph_execution_state_id data,
             batch_id = queue_batch_id data \<rparr>,
         status := ''PROCESSING''\<rparr>)"
| "systemSlice_reducer calculateStepPercentage state socketInvocationComplete =
     state\<lparr>denoiseProgress := None, status := ''CONNECTED''\<rparr>"
| "systemSlice_reducer calculateStepPercentage state socketGraphExecutionStateComplete =
     state\<lparr>denoiseProgress := None, status := ''CONNECTED''\<rparr>"
| "systemSlice_reducer calculateStepPercentage state socketModelLoadStarted =
     state\<lparr>status := ''LOADING_MODEL''\<rparr>"
| "systemSlice_reducer calculateStepPercentage state socketModelLoadCompleted =
     state\<lparr>status := ''CONNECTED''\<rparr>"
| "systemSlice_reducer calculateStepPercentage state (socketQueueItemStatusChanged item) =
     (if queue_item_status item \<in> set [''completed'', ''canceled'', ''failed'']
      then state
        \<lparr>status := ''CONNECTED'',
         denoiseProgress := None,
         cancellations := cancellations state @ [queue_item_session_id item]\<rparr>
      else state)"

text \<open>The store applies the reducer to the actions one after the other.\<close>

definition dispatch_all :: "step_percentage \<Rightarrow> system_state \<Rightarrow> action list \<Rightarrow> system_state" where
  "dispatch_all calculateStepPercentage state actions =
     foldl (systemSlice_reducer calculateStepPercentage) state actions"

section \<open>The cancellation registry as a set\<close>

text \<open>
  The specification describes the cancelled sessions as a set that is filled by
  \<open>markCancelled\<close> and emptied by \<open>reset\<close>. These definitions follow its words;
  the reducer's array is compared with them below.
\<close>

definition markCancelled :: "string \<Rightarrow> string set \<Rightarrow> string set" where
  "markCancelled sessionId registry = insert sessionId registry"

definition reset :: "string set" where
  "reset = {}"

text \<open>
  The registry's part of the transition table: a started invocation resets it, a
  queue item reaching completed, canceled or failed marks its session, and no
  other event touches it.
\<close>

fun registry_apply :: "string set \<Rightarrow> action \<Rightarrow> string set" where
  "registry_apply registry socketInvocationStarted = reset"
| "registry_apply registry (socketQueueItemStatusChanged item) =
     (if queue_item_status item = ''completed'' \<or> queue_item_status item = ''canceled''
         \<or> queue_item_status item = ''failed''
      then markCancelled (queue_item_session_id item) registry
      else registry)"
| "registry_apply registry other = registry"

definition registry_after :: "action list \<Rightarrow> string set" where
  "registry_after actions = foldl registry_apply reset actions"

section \<open>What a list of actions leaves behind\<close>

text \<open>
  The array of cancellations read off the list of actions: the actions that came
  after the last started invocation, and of these the session ids of the queue
  items reported completed, canceled or failed, in the order of arrival.
\<close>

definition since_last_start :: "action list \<Rightarrow> action list" where
  "since_last_start actions =
     rev (takeWhile (\<lambda>a. a \<noteq> socketInvocationStarted) (rev actions))"

fun reported_terminal :: "action \<Rightarrow> string list" where
  "reported_terminal (socketQueueItemStatusChanged item) =
     (if queue_item_status item = ''completed'' \<or> queue_item_status item = ''canceled''
         \<or> queue_item_status item = ''failed''
      then [queue_item_session_id item]
      else [])"
| "reported_terminal other = []"

definition terminal_sessions_since_start :: "action list \<Rightarrow> string list" where
  "terminal_sessions_since_start actions =
     concat (map reported_terminal (since_last_start actions))"

text \<open>
  The actions whose handler assigns \<open>denoiseProgress\<close> in the given state: the
  six that clear it (connected, disconnected, invocation started, invocation
  complete, graph execution state complete, a queue item reported completed,
  canceled or failed) and a progress event of a session that is not cancelled.
\<close>

fun writes_denoiseProgress :: "system_state \<Rightarrow> action \<Rightarrow> bool" where
  "writes_denoiseProgress state socketConnected = True"
| "writes_denoiseProgress state socketDisconnected = True"
| "writes_denoiseProgress state socketInvocationStarted = True"
| "writes_denoiseProgress state (socketGeneratorProgress data) =
     (\<not> graph_execution_state_id data \<in> set (cancellations state))"
| "writes_denoiseProgress state socketInvocationComplete = True"
| "writes_denoiseProgress state socketGraphExecutionStateComplete = True"
| "writes_denoiseProgress state (socketQueueItemStatusChanged item) =
     (queue_item_status item = ''completed'' \<or> queue_item_status item = ''canceled''
        \<or> queue_item_status item = ''failed'')"
| "writes_denoiseProgress state other = False"

text \<open>The status a model load event writes; no status for any other action.\<close>

fun model_load_status :: "action \<Rightarrow> string option" where
  "model_load_status socketModelLoadStarted = Some ''LOADING_MODEL''"
| "model_load_status socketModelLoadCompleted = Some ''CONNECTED''"
| "model_load_status other = None"

text \<open>
  The status written by the latest model load event that arrived after the most
  recent assignment of \<open>denoiseProgress\<close>, if there is one. \<open>pending\<close> is the
  answer for the actions already applied, \<open>state\<close> the state they led to.
\<close>

fun model_load_since_write ::
  "step_percentage \<Rightarrow> system_state \<Rightarrow> string option \<Rightarrow> action list \<Rightarrow> string option" where
  "model_load_since_write calc state pending [] = pending"
| "model_load_since_write calc state pending (a # rest) =
     model_load_since_write calc (systemSlice_reducer calc state a)
       (if writes_denoiseProgress state a then None
        else if model_load_status a \<noteq> None then model_load_status a
        else pending)
       rest"

section \<open>Persistence\<close>

text \<open>
  A persisted shape is a plain object: a finite map from property names to values.
  \<open>'_version' in state\<close> asks whether the property is present, whatever its value.
  The migration writes the property into the object it was given and returns that
  object; here it returns the updated map.
\<close>

type_synonym persisted = "string \<rightharpoonup> json"

definition migrateSystemState :: "persisted \<Rightarrow> persisted" where
  "migrateSystemState state =
     (if \<not> (''_version'' \<in> dom state) then state(''_version'' \<mapsto> JNum 1) else state)"

definition persistDenylist :: "string list" where
  "persistDenylist = [''isConnected'', ''denoiseProgress'', ''status'', ''cancellations'']"

text \<open>The state as the plain object the store holds, property by property.\<close>

definition denoise_progress_json :: "denoise_progress option \<Rightarrow> json" where
  "denoise_progress_json progress =
     (case progress of
        None \<Rightarrow> JNull
      | Some p \<Rightarrow>
          JObj [ (''step'', JNum (of_int (step p))),
                 (''total_steps'', JNum (of_int (total_steps p))),
                 (''order'', JNum (of_int (order p))),
                 (''percentage'', JNum (percentage p)),
                 (''progress_image'', progress_image p),
                 (''session_id'', JStr (session_id p)),
                 (''batch_id'', JStr (batch_id p)) ])"

definition state_object :: "system_state \<Rightarrow> persisted" where
  "state_object state =
     map_of
       [ (''_version'', JNum (of_int (version state))),
         (''isConnected'', JBool (isConnected state)),
         (''shouldConfirmOnDelete'', JBool (shouldConfirmOnDelete state)),
         (''enableImageDebugging'', JBool (enableImageDebugging state)),
         (''denoiseProgress'', denoise_progress_json (denoiseProgress state)),
         (''shouldAntialiasProgressImage'', JBool (shouldAntialiasProgressImage state)),
         (''consoleLogLevel'', JStr (consoleLogLevel state)),
         (''shouldLogToConsole'', JBool (shouldLogToConsole state)),
         (''language'', JStr (language state)),
         (''shouldUseNSFWChecker'', JBool (shouldUseNSFWChecker state)),
         (''shouldUseWatermarker'', JBool (shouldUseWatermarker state)),
         (''shouldEnableInformationalPopovers'', JBool (shouldEnableInformationalPopovers state)),
         (''status'', JStr (status state)),
         (''cancellations'', JArr (map JStr (cancellations state))) ]"

text \<open>
  Modelled from the spec: the store that reads \<open>systemPersistConfig\<close>, writes the
  snapshot and loads it again is not part of the source. Following the
  specification, the fields on the denylist are never written to durable storage.
\<close>

definition persist :: "persisted \<Rightarrow> persisted" where
  "persist object = (\<lambda>name. if name \<in> set persistDenylist then None else object name)"

text \<open>
  Modelled from the spec: loading, which is missing from the source as well. A
  loaded shape is migrated; the fields on the denylist are reset to their initial
  values whatever was persisted for them; every other persisted field replaces
  the initial value.
\<close>

definition restore :: "persisted \<Rightarrow> persisted" where
  "restore saved = state_object initialSystemState ++ persist (migrateSystemState saved)"

section \<open>Progress events of a cancelled session\<close>

text \<open>
  C1: when the session id of a progress event is already in \<open>cancellations\<close>, the
  progress handler returns the state it was given: no field changes, neither
  \<open>status\<close> nor \<open>denoiseProgress\<close> nor any other.
\<close>

theorem progress_of_cancelled_session_is_noop:
  assumes "graph_execution_state_id data \<in> set (cancellations state)"
  shows "systemSlice_reducer calc state (socketGeneratorProgress data) = state"
  using assms by simp

theorem progress_of_cancelled_session_is_noop_witness:
  "graph_execution_state_id
     \<lparr> data_step = 5, data_total_steps = 10, data_order = 1, data_progress_image = JNull,
       graph_execution_state_id = ''s1'', queue_batch_id = ''b1'' \<rparr>
     \<in> set (cancellations (initialSystemState\<lparr>status := ''CONNECTED'', cancellations := [''s1'']\<rparr>))
   \<and> systemSlice_reducer (\<lambda>s t ord. 0)
       (initialSystemState\<lparr>status := ''CONNECTED'', cancellations := [''s1'']\<rparr>)
       (socketGeneratorProgress
         \<lparr> data_step = 5, data_total_steps = 10, data_order = 1, data_progress_image = JNull,
           graph_execution_state_id = ''s1'', queue_batch_id = ''b1'' \<rparr>)
     = initialSystemState\<lparr>status := ''CONNECTED'', cancellations := [''s1'']\<rparr>"
proof -
  let ?d = "\<lparr> data_step = 5, data_total_steps = 10, data_order = 1, data_progress_image = JNull,
       graph_execution_state_id = ''s1'', queue_batch_id = ''b1'' \<rparr>"
  let ?s = "initialSystemState\<lparr>status := ''CONNECTED'', cancellations := [''s1'']\<rparr>"
  have h: "graph_execution_state_id ?d \<in> set (cancellations ?s)"
    by simp
  from progress_of_cancelled_session_is_noop [OF h, of "\<lambda>s t ord. 0"] h
  show ?thesis by blast
qed

section \<open>Start of an invocation\<close>

text \<open>
  C3: whatever the state was, after \<open>socketInvocationStarted\<close> the list of
  cancellations is empty, there is no progress, and the status is PROCESSING.
\<close>

theorem invocation_started_resets:
  "cancellations (systemSlice_reducer calc state socketInvocationStarted) = []
   \<and> denoiseProgress (systemSlice_reducer calc state socketInvocationStarted) = None
   \<and> status (systemSlice_reducer calc state socketInvocationStarted) = ''PROCESSING''"
  by simp

section \<open>Queue item status changes\<close>

text \<open>
  C4: a queue item status event whose status is completed, canceled or failed
  yields status CONNECTED, no progress, and the item's session id among the
  cancellations; one whose status is pending or in_progress returns the state
  unchanged.
\<close>

theorem queue_item_status_changed_effect:
  "(queue_item_status item \<in> {''completed'', ''canceled'', ''failed''} \<longrightarrow>
      status (systemSlice_reducer calc state (socketQueueItemStatusChanged item)) = ''CONNECTED''
      \<and> denoiseProgress (systemSlice_reducer calc state (socketQueueItemStatusChanged item)) = None
      \<and> queue_item_session_id item
          \<in> set (cancellations (systemSlice_reducer calc state (socketQueueItemStatusChanged item))))
   \<and> (queue_item_status item \<in> {''pending'', ''in_progress''} \<longrightarrow>
      systemSlice_reducer calc state (socketQueueItemStatusChanged item) = state)"
  by auto

theorem queue_item_status_changed_effect_witness:
  "''completed'' \<in> {''completed'', ''canceled'', ''failed''}
   \<and> status (systemSlice_reducer (\<lambda>s t ord. 0) initialSystemState
        (socketQueueItemStatusChanged
          \<lparr>queue_item_status = ''completed'', queue_item_session_id = ''abc''\<rparr>)) = ''CONNECTED''
   \<and> denoiseProgress (systemSlice_reducer (\<lambda>s t ord. 0) initialSystemState
        (socketQueueItemStatusChanged
          \<lparr>queue_item_status = ''completed'', queue_item_session_id = ''abc''\<rparr>)) = None
   \<and> ''abc'' \<in> set (cancellations (systemSlice_reducer (\<lambda>s t ord. 0) initialSystemState
        (socketQueueItemStatusChanged
          \<lparr>queue_item_status = ''completed'', queue_item_session_id = ''abc''\<rparr>)))
   \<and> ''pending'' \<in> {''pending'', ''in_progress''}
   \<and> systemSlice_reducer (\<lambda>s t ord. 0) initialSystemState
        (socketQueueItemStatusChanged
          \<lparr>queue_item_status = ''pending'', queue_item_session_id = ''abc''\<rparr>) = initialSystemState"
  using queue_item_status_changed_effect
      [of "\<lparr>queue_item_status = ''completed'', queue_item_session_id = ''abc''\<rparr>"
          "\<lambda>s t ord. 0" initialSystemState]
    queue_item_status_changed_effect
      [of "\<lparr>queue_item_status = ''pending'', queue_item_session_id = ''abc''\<rparr>"
          "\<lambda>s t ord. 0" initialSystemState]
  by simp

section \<open>A progress event arriving after the cancellation\<close>

text \<open>
  C5: from the initial state, the actions connected, invocation started, progress
  (step 0 of 10, order 1, session s1), queue item canceled (session s1), progress
  (step 5 of 10, order 1, session s1) end in status CONNECTED, with no progress and
  with s1 the only cancelled session; the last progress event changes nothing. The
  progress images, the batch ids and the percentage function are arbitrary.
\<close>

theorem cancel_then_late_progress_scenario:
  "status (dispatch_all calc initialSystemState
      [ socketConnected,
        socketInvocationStarted,
        socketGeneratorProgress
          \<lparr> data_step = 0, data_total_steps = 10, data_order = 1, data_progress_image = img1,
            graph_execution_state_id = ''s1'', queue_batch_id = b1 \<rparr>,
        socketQueueItemStatusChanged
          \<lparr> queue_item_status = ''canceled'', queue_item_session_id = ''s1'' \<rparr>,
        socketGeneratorProgress
          \<lparr> data_step = 5, data_total_steps = 10, data_order = 1, data_progress_image = img2,
            graph_execution_state_id = ''s1'', queue_batch_id = b2 \<rparr> ]) = ''CONNECTED''
   \<and> denoiseProgress (dispatch_all calc initialSystemState
      [ socketConnected,
        socketInvocationStarted,
        socketGeneratorProgress
          \<lparr> data_step = 0, data_total_steps = 10, data_order = 1, data_progress_image = img1,
            graph_execution_state_id = ''s1'', queue_batch_id = b1 \<rparr>,
        socketQueueItemStatusChanged
          \<lparr> queue_item_status = ''canceled'', queue_item_session_id = ''s1'' \<rparr>,
        socketGeneratorProgress
          \<lparr> data_step = 5, data_total_steps = 10, data_order = 1, data_progress_image = img2,
            graph_execution_state_id = ''s1'', queue_batch_id = b2 \<rparr> ]) = None
   \<and> set (cancellations (dispatch_all calc initialSystemState
      [ socketConnected,
        socketInvocationStarted,
        socketGeneratorProgress
          \<lparr> data_step = 0, data_total_steps = 10, data_order = 1, data_progress_image = img1,
            graph_execution_state_id = ''s1'', queue_batch_id = b1 \<rparr>,
        socketQueueItemStatusChanged
          \<lparr> queue_item_status = ''canceled'', queue_item_session_id = ''s1'' \<rparr>,
        socketGeneratorProgress
          \<lparr> data_step = 5, data_total_steps = 10, data_order = 1, data_progress_image = img2,
            graph_execution_state_id = ''s1'', queue_batch_id = b2 \<rparr> ])) = {''s1''}
   \<and> dispatch_all calc initialSystemState
      [ socketConnected,
        socketInvocationStarted,
        socketGeneratorProgress
          \<lparr> data_step = 0, data_total_steps = 10, data_order = 1, data_progress_image = img1,
            graph_execution_state_id = ''s1'', queue_batch_id = b1 \<rparr>,
        socketQueueItemStatusChanged
          \<lparr> queue_item_status = ''canceled'', queue_item_session_id = ''s1'' \<rparr>,
        socketGeneratorProgress
          \<lparr> data_step = 5, data_total_steps = 10, data_order = 1, data_progress_image = img2,
            graph_execution_state_id = ''s1'', queue_batch_id = b2 \<rparr> ]
     = dispatch_all calc initialSystemState
      [ socketConnected,
        socketInvocationStarted,
        socketGeneratorProgress
          \<lparr> data_step = 0, data_total_steps = 10, data_order = 1, data_progress_image = img1,
            graph_execution_state_id = ''s1'', queue_batch_id = b1 \<rparr>,
        socketQueueItemStatusChanged
          \<lparr> queue_item_status = ''canceled'', queue_item_session_id = ''s1'' \<rparr> ]"
  by (simp add: dispatch_all_def initialSystemState_def)

section \<open>Reachable states\<close>

text \<open>
  A property that holds of the starting state and is kept by every step of the
  reducer holds after any list of actions.
\<close>

lemma dispatch_all_Nil: "dispatch_all calc state [] = state"
  by (simp add: dispatch_all_def)

lemma dispatch_all_snoc:
  "dispatch_all calc state (actions @ [a]) =
     systemSlice_reducer calc (dispatch_all calc state actions) a"
  by (simp add: dispatch_all_def)

lemma dispatch_all_invariant:
  assumes "P state"
    and "\<And>s a. P s \<Longrightarrow> a \<in> set actions \<Longrightarrow> P (systemSlice_reducer calc s a)"
  shows "P (dispatch_all calc state actions)"
  using assms
proof (induction actions rule: rev_induct)
  case Nil
  then show ?case by (simp add: dispatch_all_Nil)
next
  case (snoc a actions)
  then show ?case by (simp add: dispatch_all_snoc)
qed

lemma status_enumerated_step:
  assumes "status s \<in> {''DISCONNECTED'', ''CONNECTED'', ''PROCESSING'', ''LOADING_MODEL''}"
  shows "status (systemSlice_reducer calc s a)
           \<in> {''DISCONNECTED'', ''CONNECTED'', ''PROCESSING'', ''LOADING_MODEL''}"
  using assms by (cases a) auto

lemma progress_connected_step:
  assumes "denoiseProgress s \<noteq> None \<longrightarrow> status s \<in> {''PROCESSING'', ''LOADING_MODEL'', ''CONNECTED''}"
  shows "denoiseProgress (systemSlice_reducer calc s a) \<noteq> None \<longrightarrow>
         status (systemSlice_reducer calc s a) \<in> {''PROCESSING'', ''LOADING_MODEL'', ''CONNECTED''}"
  using assms by (cases a) auto

lemma progress_processing_step:
  assumes "denoiseProgress s \<noteq> None \<longrightarrow> status s = ''PROCESSING''"
    and "a \<noteq> socketModelLoadStarted" and "a \<noteq> socketModelLoadCompleted"
  shows "denoiseProgress (systemSlice_reducer calc s a) \<noteq> None \<longrightarrow>
         status (systemSlice_reducer calc s a) = ''PROCESSING''"
  using assms by (cases a) auto

lemma dispatch_all_Cons:
  "dispatch_all calc state (a # rest) = dispatch_all calc (systemSlice_reducer calc state a) rest"
  by (simp add: dispatch_all_def)

lemma dispatch_all_append:
  "dispatch_all calc state (first @ rest) = dispatch_all calc (dispatch_all calc state first) rest"
  by (simp add: dispatch_all_def)

lemma write_gives_processing:
  assumes "writes_denoiseProgress s a"
  shows "denoiseProgress (systemSlice_reducer calc s a) \<noteq> None \<longrightarrow>
         status (systemSlice_reducer calc s a) = ''PROCESSING''"
  using assms by (cases a) auto

lemma processing_kept_without_model_load:
  assumes "denoiseProgress s \<noteq> None \<longrightarrow> status s = ''PROCESSING''"
    and "\<forall>b \<in> set rest. b \<noteq> socketModelLoadStarted \<and> b \<noteq> socketModelLoadCompleted"
  shows "denoiseProgress (dispatch_all calc s rest) \<noteq> None \<longrightarrow>
         status (dispatch_all calc s rest) = ''PROCESSING''"
proof (rule dispatch_all_invariant)
  show "denoiseProgress s \<noteq> None \<longrightarrow> status s = ''PROCESSING''"
    by (rule assms(1))
next
  fix t :: system_state and b
  assume "denoiseProgress t \<noteq> None \<longrightarrow> status t = ''PROCESSING''" and "b \<in> set rest"
  with assms(2) show "denoiseProgress (systemSlice_reducer calc t b) \<noteq> None \<longrightarrow>
         status (systemSlice_reducer calc t b) = ''PROCESSING''"
    by (intro progress_processing_step) auto
qed

lemma pending_step:
  assumes "denoiseProgress s \<noteq> None \<longrightarrow>
           status s = (case pending of None \<Rightarrow> ''PROCESSING'' | Some written \<Rightarrow> written)"
  shows "denoiseProgress (systemSlice_reducer calc s a) \<noteq> None \<longrightarrow>
         status (systemSlice_reducer calc s a) =
           (case (if writes_denoiseProgress s a then None
                  else if model_load_status a \<noteq> None then model_load_status a
                  else pending) of
              None \<Rightarrow> ''PROCESSING'' | Some written \<Rightarrow> written)"
  using assms by (cases a) (auto split: option.splits)

lemma pending_run:
  assumes "denoiseProgress s \<noteq> None \<longrightarrow>
           status s = (case pending of None \<Rightarrow> ''PROCESSING'' | Some written \<Rightarrow> written)"
  shows "denoiseProgress (dispatch_all calc s actions) \<noteq> None \<longrightarrow>
         status (dispatch_all calc s actions) =
           (case model_load_since_write calc s pending actions of
              None \<Rightarrow> ''PROCESSING'' | Some written \<Rightarrow> written)"
  using assms
proof (induction actions arbitrary: s pending)
  case Nil
  then show ?case by (simp add: dispatch_all_Nil)
next
  case (Cons a actions)
  from pending_step [OF Cons.prems, of calc a]
  have "denoiseProgress (dispatch_all calc (systemSlice_reducer calc s a) actions) \<noteq> None \<longrightarrow>
         status (dispatch_all calc (systemSlice_reducer calc s a) actions) =
           (case model_load_since_write calc (systemSlice_reducer calc s a)
                   (if writes_denoiseProgress s a then None
                    else if model_load_status a \<noteq> None then model_load_status a
                    else pending) actions of
              None \<Rightarrow> ''PROCESSING'' | Some written \<Rightarrow> written)"
    by (rule Cons.IH)
  then show ?case by (simp add: dispatch_all_Cons)
qed

text \<open>
  C2 (amended): after every list of actions applied to the initial state, the
  status is one of DISCONNECTED, CONNECTED, PROCESSING, LOADING_MODEL, and
  \<open>denoiseProgress\<close> is non-null only when the status is PROCESSING, unless a
  model load event arrived after the most recent assignment of \<open>denoiseProgress\<close>
  (an applied progress event or a clearing event); then the status is the one
  that the latest such model load event wrote, LOADING_MODEL or CONNECTED. In
  particular \<open>denoiseProgress\<close> is non-null only under the status PROCESSING
  when the list holds no model load event, and when none follows an action that
  assigned \<open>denoiseProgress\<close>; it is never non-null under DISCONNECTED.
\<close>

theorem reachable_status_and_progress:
  "status (dispatch_all calc initialSystemState actions)
     \<in> {''DISCONNECTED'', ''CONNECTED'', ''PROCESSING'', ''LOADING_MODEL''}
   \<and> (denoiseProgress (dispatch_all calc initialSystemState actions) \<noteq> None \<longrightarrow>
        status (dispatch_all calc initialSystemState actions)
          = (case model_load_since_write calc initialSystemState None actions of
               None \<Rightarrow> ''PROCESSING'' | Some written \<Rightarrow> written))
   \<and> (denoiseProgress (dispatch_all calc initialSystemState actions) \<noteq> None \<longrightarrow>
        status (dispatch_all calc initialSystemState actions)
          \<in> {''PROCESSING'', ''LOADING_MODEL'', ''CONNECTED''})
   \<and> ((\<forall>b \<in> set actions. b \<noteq> socketModelLoadStarted \<and> b \<noteq> socketModelLoadCompleted) \<longrightarrow>
        denoiseProgress (dispatch_all calc initialSystemState actions) \<noteq> None \<longrightarrow>
        status (dispatch_all calc initialSystemState actions) = ''PROCESSING'')
   \<and> (writes_denoiseProgress (dispatch_all calc initialSystemState before) a
        \<and> (\<forall>b \<in> set after. b \<noteq> socketModelLoadStarted \<and> b \<noteq> socketModelLoadCompleted) \<longrightarrow>
        denoiseProgress (dispatch_all calc initialSystemState (before @ a # after)) \<noteq> None \<longrightarrow>
        status (dispatch_all calc initialSystemState (before @ a # after)) = ''PROCESSING'')"
proof (intro conjI)
  show "status (dispatch_all calc initialSystemState actions)
     \<in> {''DISCONNECTED'', ''CONNECTED'', ''PROCESSING'', ''LOADING_MODEL''}"
    by (rule dispatch_all_invariant) (simp add: initialSystemState_def, rule status_enumerated_step)
next
  show "denoiseProgress (dispatch_all calc initialSystemState actions) \<noteq> None \<longrightarrow>
        status (dispatch_all calc initialSystemState actions)
          = (case model_load_since_write calc initialSystemState None actions of
               None \<Rightarrow> ''PROCESSING'' | Some written \<Rightarrow> written)"
    by (rule pending_run) (simp add: initialSystemState_def)
next
  show "denoiseProgress (dispatch_all calc initialSystemState actions) \<noteq> None \<longrightarrow>
        status (dispatch_all calc initialSystemState actions)
          \<in> {''PROCESSING'', ''LOADING_MODEL'', ''CONNECTED''}"
    by (rule dispatch_all_invariant) (simp add: initialSystemState_def, rule progress_connected_step)
next
  show "(\<forall>b \<in> set actions. b \<noteq> socketModelLoadStarted \<and> b \<noteq> socketModelLoadCompleted) \<longrightarrow>
        denoiseProgress (dispatch_all calc initialSystemState actions) \<noteq> None \<longrightarrow>
        status (dispatch_all calc initialSystemState actions) = ''PROCESSING''"
  proof
    assume "\<forall>b \<in> set actions. b \<noteq> socketModelLoadStarted \<and> b \<noteq> socketModelLoadCompleted"
    then show "denoiseProgress (dispatch_all calc initialSystemState actions) \<noteq> None \<longrightarrow>
        status (dispatch_all calc initialSystemState actions) = ''PROCESSING''"
      by (intro processing_kept_without_model_load) (simp_all add: initialSystemState_def)
  qed
next
  show "writes_denoiseProgress (dispatch_all calc initialSystemState before) a
        \<and> (\<forall>b \<in> set after. b \<noteq> socketModelLoadStarted \<and> b \<noteq> socketModelLoadCompleted) \<longrightarrow>
        denoiseProgress (dispatch_all calc initialSystemState (before @ a # after)) \<noteq> None \<longrightarrow>
        status (dispatch_all calc initialSystemState (before @ a # after)) = ''PROCESSING''"
  proof
    assume h: "writes_denoiseProgress (dispatch_all calc initialSystemState before) a
        \<and> (\<forall>b \<in> set after. b \<noteq> socketModelLoadStarted \<and> b \<noteq> socketModelLoadCompleted)"
    let ?s = "systemSlice_reducer calc (dispatch_all calc initialSystemState before) a"
    from h have "denoiseProgress ?s \<noteq> None \<longrightarrow> status ?s = ''PROCESSING''"
      by (intro write_gives_processing) simp
    with h have "denoiseProgress (dispatch_all calc ?s after) \<noteq> None \<longrightarrow>
         status (dispatch_all calc ?s after) = ''PROCESSING''"
      by (intro processing_kept_without_model_load) simp_all
    then show "denoiseProgress (dispatch_all calc initialSystemState (before @ a # after)) \<noteq> None \<longrightarrow>
        status (dispatch_all calc initialSystemState (before @ a # after)) = ''PROCESSING''"
      by (simp add: dispatch_all_append dispatch_all_Cons)
  qed
qed

theorem reachable_status_and_progress_witness:
  "status (dispatch_all (\<lambda>s t ord. 0) initialSystemState
      [ socketInvocationStarted,
        socketGeneratorProgress
          \<lparr> data_step = 0, data_total_steps = 10, data_order = 1, data_progress_image = JNull,
            graph_execution_state_id = ''s1'', queue_batch_id = ''b1'' \<rparr> ]) = ''PROCESSING''
   \<and> status (dispatch_all (\<lambda>s t ord. 0) initialSystemState
      [ socketInvocationStarted,
        socketGeneratorProgress
          \<lparr> data_step = 0, data_total_steps = 10, data_order = 1, data_progress_image = JNull,
            graph_execution_state_id = ''s1'', queue_batch_id = ''b1'' \<rparr>,
        socketModelLoadStarted ]) = ''LOADING_MODEL''
   \<and> status (dispatch_all (\<lambda>s t ord. 0) initialSystemState
      ([ socketInvocationStarted,
         socketGeneratorProgress
           \<lparr> data_step = 0, data_total_steps = 10, data_order = 1, data_progress_image = JNull,
             graph_execution_state_id = ''s1'', queue_batch_id = ''b1'' \<rparr>,
         socketModelLoadStarted ]
       @ socketGeneratorProgress
           \<lparr> data_step = 1, data_total_steps = 10, data_order = 1, data_progress_image = JNull,
             graph_execution_state_id = ''s1'', queue_batch_id = ''b1'' \<rparr>
       # [ languageChanged ''de'' ])) = ''PROCESSING''"
proof -
  let ?calc = "\<lambda>s t ord. 0 :: real"
  let ?p0 = "socketGeneratorProgress
          \<lparr> data_step = 0, data_total_steps = 10, data_order = 1, data_progress_image = JNull,
            graph_execution_state_id = ''s1'', queue_batch_id = ''b1'' \<rparr>"
  let ?p1 = "socketGeneratorProgress
          \<lparr> data_step = 1, data_total_steps = 10, data_order = 1, data_progress_image = JNull,
            graph_execution_state_id = ''s1'', queue_batch_id = ''b1'' \<rparr>"
  let ?quiet = "[socketInvocationStarted, ?p0]"
  let ?loading = "[socketInvocationStarted, ?p0, socketModelLoadStarted]"
  have no_load: "\<forall>b \<in> set ?quiet. b \<noteq> socketModelLoadStarted \<and> b \<noteq> socketModelLoadCompleted"
    by simp
  have some_quiet: "denoiseProgress (dispatch_all ?calc initialSystemState ?quiet) \<noteq> None"
    by (simp add: dispatch_all_def initialSystemState_def)
  have first: "status (dispatch_all ?calc initialSystemState ?quiet) = ''PROCESSING''"
    using reachable_status_and_progress [of ?calc ?quiet] no_load some_quiet by blast
  have some_loading: "denoiseProgress (dispatch_all ?calc initialSystemState ?loading) \<noteq> None"
    by (simp add: dispatch_all_def initialSystemState_def)
  have pending: "model_load_since_write ?calc initialSystemState None ?loading = Some ''LOADING_MODEL''"
    by (simp add: initialSystemState_def)
  have second: "status (dispatch_all ?calc initialSystemState ?loading) = ''LOADING_MODEL''"
    using reachable_status_and_progress [of ?calc ?loading] some_loading pending by simp
  have applied: "writes_denoiseProgress (dispatch_all ?calc initialSystemState ?loading) ?p1
      \<and> (\<forall>b \<in> set [languageChanged ''de'']. b \<noteq> socketModelLoadStarted \<and> b \<noteq> socketModelLoadCompleted)"
    by (simp add: dispatch_all_def initialSystemState_def)
  have some_late: "denoiseProgress (dispatch_all ?calc initialSystemState
      (?loading @ ?p1 # [languageChanged ''de''])) \<noteq> None"
    by (simp add: dispatch_all_def initialSystemState_def)
  have third: "status (dispatch_all ?calc initialSystemState
      (?loading @ ?p1 # [languageChanged ''de''])) = ''PROCESSING''"
    using reachable_status_and_progress
      [where calc = ?calc and before = ?loading and a = ?p1 and after = "[languageChanged ''de'']"]
      applied some_late by blast
  from first second third show ?thesis by blast
qed

text \<open>
  The two model load handlers write the status and leave \<open>denoiseProgress\<close> as it
  is: a model load that starts after a progress event leaves a progress record
  under the status LOADING_MODEL.
\<close>

theorem progress_while_loading_model_counterexample:
  "denoiseProgress (dispatch_all (\<lambda>s t ord. 0) initialSystemState
      [ socketInvocationStarted,
        socketGeneratorProgress
          \<lparr> data_step = 0, data_total_steps = 10, data_order = 1, data_progress_image = JNull,
            graph_execution_state_id = ''s1'', queue_batch_id = ''b1'' \<rparr>,
        socketModelLoadStarted ]) \<noteq> None
   \<and> status (dispatch_all (\<lambda>s t ord. 0) initialSystemState
      [ socketInvocationStarted,
        socketGeneratorProgress
          \<lparr> data_step = 0, data_total_steps = 10, data_order = 1, data_progress_image = JNull,
            graph_execution_state_id = ''s1'', queue_batch_id = ''b1'' \<rparr>,
        socketModelLoadStarted ]) \<noteq> ''PROCESSING''"
  by (simp add: dispatch_all_def initialSystemState_def)

section \<open>Who changes the cancellations\<close>

text \<open>
  C6: for every state and action, \<open>socketInvocationStarted\<close> empties the
  cancellations and is the only action that removes from them; a queue item status
  action with status completed, canceled or failed appends its session id and is
  the only action that adds to them; every other action leaves the cancellations
  as they were.
\<close>

theorem cancellations_changed_only_by_start_and_terminal:
  "(a = socketInvocationStarted \<longrightarrow> cancellations (systemSlice_reducer calc state a) = [])
   \<and> (a = socketQueueItemStatusChanged item
        \<and> queue_item_status item \<in> {''completed'', ''canceled'', ''failed''} \<longrightarrow>
      cancellations (systemSlice_reducer calc state a)
        = cancellations state @ [queue_item_session_id item])
   \<and> (a \<noteq> socketInvocationStarted
        \<and> \<not> (\<exists>i. a = socketQueueItemStatusChanged i
                 \<and> queue_item_status i \<in> {''completed'', ''canceled'', ''failed''}) \<longrightarrow>
      cancellations (systemSlice_reducer calc state a) = cancellations state)"
  by (cases a) auto

theorem cancellations_changed_only_by_start_and_terminal_witness:
  "cancellations (systemSlice_reducer (\<lambda>s t ord. 0)
      (initialSystemState\<lparr>cancellations := [''s0'']\<rparr>) socketInvocationStarted) = []
   \<and> cancellations (systemSlice_reducer (\<lambda>s t ord. 0)
      (initialSystemState\<lparr>cancellations := [''s0'']\<rparr>)
      (socketQueueItemStatusChanged
        \<lparr>queue_item_status = ''failed'', queue_item_session_id = ''s1''\<rparr>)) = [''s0'', ''s1'']
   \<and> cancellations (systemSlice_reducer (\<lambda>s t ord. 0)
      (initialSystemState\<lparr>cancellations := [''s0'']\<rparr>) socketDisconnected) = [''s0'']
   \<and> cancellations (systemSlice_reducer (\<lambda>s t ord. 0)
      (initialSystemState\<lparr>cancellations := [''s0'']\<rparr>)
      (socketQueueItemStatusChanged
        \<lparr>queue_item_status = ''pending'', queue_item_session_id = ''s1''\<rparr>)) = [''s0'']"
proof -
  let ?s = "initialSystemState\<lparr>cancellations := [''s0'']\<rparr>"
  let ?failed = "\<lparr>queue_item_status = ''failed'', queue_item_session_id = ''s1''\<rparr>"
  let ?pending = "\<lparr>queue_item_status = ''pending'', queue_item_session_id = ''s1''\<rparr>"
  have terminal: "queue_item_status ?failed \<in> {''completed'', ''canceled'', ''failed''}"
    by simp
  have other1: "socketDisconnected \<noteq> socketInvocationStarted
     \<and> \<not> (\<exists>i. socketDisconnected = socketQueueItemStatusChanged i
                 \<and> queue_item_status i \<in> {''completed'', ''canceled'', ''failed''})"
    by simp
  have other2: "socketQueueItemStatusChanged ?pending \<noteq> socketInvocationStarted
     \<and> \<not> (\<exists>i. socketQueueItemStatusChanged ?pending = socketQueueItemStatusChanged i
                 \<and> queue_item_status i \<in> {''completed'', ''canceled'', ''failed''})"
    by auto
  have "cancellations (systemSlice_reducer (\<lambda>s t ord. 0) ?s socketInvocationStarted) = []"
    using cancellations_changed_only_by_start_and_terminal
      [of socketInvocationStarted "\<lambda>s t ord. 0" ?s] by blast
  moreover have "cancellations (systemSlice_reducer (\<lambda>s t ord. 0) ?s
      (socketQueueItemStatusChanged ?failed)) = [''s0'', ''s1'']"
    using cancellations_changed_only_by_start_and_terminal
      [of "socketQueueItemStatusChanged ?failed" "\<lambda>s t ord. 0" ?s ?failed] terminal
    by (simp add: initialSystemState_def)
  moreover have "cancellations (systemSlice_reducer (\<lambda>s t ord. 0) ?s socketDisconnected) = [''s0'']"
    using cancellations_changed_only_by_start_and_terminal
      [of socketDisconnected "\<lambda>s t ord. 0" ?s] other1
    by (simp add: initialSystemState_def)
  moreover have "cancellations (systemSlice_reducer (\<lambda>s t ord. 0) ?s
      (socketQueueItemStatusChanged ?pending)) = [''s0'']"
    using cancellations_changed_only_by_start_and_terminal
      [of "socketQueueItemStatusChanged ?pending" "\<lambda>s t ord. 0" ?s] other2
    by (simp add: initialSystemState_def)
  ultimately show ?thesis by blast
qed

section \<open>The cancellations as a set\<close>

lemma since_last_start_Nil: "since_last_start [] = []"
  by (simp add: since_last_start_def)

lemma since_last_start_snoc:
  "since_last_start (actions @ [a]) =
     (if a = socketInvocationStarted then [] else since_last_start actions @ [a])"
  by (simp add: since_last_start_def)

lemma cancellations_step:
  "cancellations (systemSlice_reducer calc s a) =
     (if a = socketInvocationStarted then [] else cancellations s @ reported_terminal a)"
  by (cases a) auto

lemma cancellations_dispatch_all:
  "cancellations (dispatch_all calc initialSystemState actions) = terminal_sessions_since_start actions"
proof (induction actions rule: rev_induct)
  case Nil
  show ?case
    by (simp add: dispatch_all_Nil terminal_sessions_since_start_def since_last_start_Nil
          initialSystemState_def)
next
  case (snoc a actions)
  then show ?case
    by (simp add: dispatch_all_snoc cancellations_step terminal_sessions_since_start_def
          since_last_start_snoc)
qed

lemma registry_apply_step:
  "set (cancellations (systemSlice_reducer calc s a)) = registry_apply (set (cancellations s)) a"
  by (cases a) (auto simp: reset_def markCancelled_def)

lemma set_cancellations_dispatch_all:
  "set (cancellations (dispatch_all calc initialSystemState actions)) = registry_after actions"
proof (induction actions rule: rev_induct)
  case Nil
  show ?case
    by (simp add: dispatch_all_Nil registry_after_def reset_def initialSystemState_def)
next
  case (snoc a actions)
  then show ?case
    by (simp add: dispatch_all_snoc registry_after_def registry_apply_step)
qed

text \<open>
  C10 (amended): after every list of actions applied to the initial state, the
  cancellations are the list of the session ids reported completed, canceled or
  failed since the last started invocation, in the order of arrival. So they
  hold no session id twice exactly when no session id was reported terminal more
  than once since the last started invocation; and as a set they are the
  specification's registry.
\<close>

theorem cancellations_are_the_terminal_sessions_since_start:
  "cancellations (dispatch_all calc initialSystemState actions)
     = terminal_sessions_since_start actions
   \<and> distinct (cancellations (dispatch_all calc initialSystemState actions))
       = distinct (terminal_sessions_since_start actions)
   \<and> set (cancellations (dispatch_all calc initialSystemState actions)) = registry_after actions"
  using cancellations_dispatch_all [of calc actions] set_cancellations_dispatch_all [of calc actions]
  by simp

text \<open>
  The handler pushes the session id without looking for it first: two terminal
  status events of one session leave its id in the array twice.
\<close>

theorem cancellations_duplicate_counterexample:
  "\<not> distinct (cancellations (dispatch_all (\<lambda>s t ord. 0) initialSystemState
      [ socketQueueItemStatusChanged
          \<lparr>queue_item_status = ''canceled'', queue_item_session_id = ''s1''\<rparr>,
        socketQueueItemStatusChanged
          \<lparr>queue_item_status = ''failed'', queue_item_session_id = ''s1''\<rparr> ]))"
  by (simp add: dispatch_all_def initialSystemState_def)

section \<open>Migration\<close>

text \<open>
  C8: for a persisted shape with no \<open>_version\<close> property, the migration returns a
  shape whose \<open>_version\<close> is 1 and whose every other property is as in the input;
  a shape that has the property is returned as it is.
\<close>

theorem migrate_stamps_missing_version:
  "(\<not> (''_version'' \<in> dom state) \<longrightarrow>
      migrateSystemState state ''_version'' = Some (JNum 1)
      \<and> (\<forall>name. name \<noteq> ''_version'' \<longrightarrow> migrateSystemState state name = state name))
   \<and> (''_version'' \<in> dom state \<longrightarrow> migrateSystemState state = state)"
  by (simp add: migrateSystemState_def)

theorem migrate_stamps_missing_version_witness:
  "\<not> (''_version'' \<in> dom [''language'' \<mapsto> JStr ''de''])
   \<and> migrateSystemState [''language'' \<mapsto> JStr ''de''] ''_version'' = Some (JNum 1)
   \<and> migrateSystemState [''language'' \<mapsto> JStr ''de''] ''language'' = Some (JStr ''de'')
   \<and> migrateSystemState [''language'' \<mapsto> JStr ''de''] ''status'' = None
   \<and> ''_version'' \<in> dom [''_version'' \<mapsto> JNum 3, ''language'' \<mapsto> JStr ''de'']
   \<and> migrateSystemState [''_version'' \<mapsto> JNum 3, ''language'' \<mapsto> JStr ''de'']
       = [''_version'' \<mapsto> JNum 3, ''language'' \<mapsto> JStr ''de'']"
proof -
  have missing: "\<not> (''_version'' \<in> dom [''language'' \<mapsto> JStr ''de''])"
    by simp
  have present: "''_version'' \<in> dom [''_version'' \<mapsto> JNum 3, ''language'' \<mapsto> JStr ''de'']"
    by simp
  from migrate_stamps_missing_version [of "[''language'' \<mapsto> JStr ''de'']"] missing
  have "migrateSystemState [''language'' \<mapsto> JStr ''de''] ''_version'' = Some (JNum 1)"
    and "migrateSystemState [''language'' \<mapsto> JStr ''de''] ''language'' = Some (JStr ''de'')"
    and "migrateSystemState [''language'' \<mapsto> JStr ''de''] ''status'' = None"
    by simp_all
  moreover from migrate_stamps_missing_version
      [of "[''_version'' \<mapsto> JNum 3, ''language'' \<mapsto> JStr ''de'']"] present
  have "migrateSystemState [''_version'' \<mapsto> JNum 3, ''language'' \<mapsto> JStr ''de'']
       = [''_version'' \<mapsto> JNum 3, ''language'' \<mapsto> JStr ''de'']"
    by blast
  ultimately show ?thesis using missing present by blast
qed

text \<open>C9: migrating a migrated shape changes nothing more.\<close>

theorem migrate_idempotent:
  "migrateSystemState (migrateSystemState state) = migrateSystemState state"
  by (simp add: migrateSystemState_def)

section \<open>Persist and restore\<close>

lemma persist_drops_denylist:
  "persist object name =
     (if name = ''isConnected'' \<or> name = ''denoiseProgress'' \<or> name = ''status''
         \<or> name = ''cancellations'' then None else object name)"
  by (simp add: persist_def persistDenylist_def)

lemma migrate_state_object: "migrateSystemState (persist (state_object s)) = persist (state_object s)"
  by (simp add: migrateSystemState_def persist_drops_denylist state_object_def domIff)

text \<open>
  C7: the denylist names exactly \<open>isConnected\<close>, \<open>denoiseProgress\<close>, \<open>status\<close> and
  \<open>cancellations\<close>; the persisted snapshot of a state holds every property but
  these four; and restoring it gives the state with \<open>_version\<close> and every
  preference as before and with the four transient fields at their initial values
  (false, null, DISCONNECTED, empty), whatever they were before persisting.
  Whatever shape is loaded, the four fields come out at their initial values.
\<close>

theorem persist_restore_round_trip:
  "set persistDenylist = {''isConnected'', ''denoiseProgress'', ''status'', ''cancellations''}
   \<and> dom (persist (state_object s))
       = dom (state_object s) - {''isConnected'', ''denoiseProgress'', ''status'', ''cancellations''}
   \<and> restore (persist (state_object s))
       = state_object
           (s\<lparr>isConnected := False, denoiseProgress := None,
              status := ''DISCONNECTED'', cancellations := []\<rparr>)
   \<and> restrict_map (restore saved) (set persistDenylist)
       = restrict_map (state_object initialSystemState) (set persistDenylist)"
proof (intro conjI)
  show "set persistDenylist = {''isConnected'', ''denoiseProgress'', ''status'', ''cancellations''}"
    by (simp add: persistDenylist_def)
next
  show "dom (persist (state_object s))
       = dom (state_object s) - {''isConnected'', ''denoiseProgress'', ''status'', ''cancellations''}"
    by (auto simp: persist_drops_denylist domIff split: if_splits)
next
  show "restore (persist (state_object s))
       = state_object
           (s\<lparr>isConnected := False, denoiseProgress := None,
              status := ''DISCONNECTED'', cancellations := []\<rparr>)"
  proof (rule ext)
    fix name
    show "restore (persist (state_object s)) name
       = state_object
           (s\<lparr>isConnected := False, denoiseProgress := None,
              status := ''DISCONNECTED'', cancellations := []\<rparr>) name"
      unfolding restore_def migrate_state_object
      by (simp add: persist_drops_denylist map_add_def state_object_def initialSystemState_def
            denoise_progress_json_def)
  qed
next
  show "restrict_map (restore saved) (set persistDenylist)
       = restrict_map (state_object initialSystemState) (set persistDenylist)"
    by (rule ext) (simp add: restore_def persist_def restrict_map_def map_add_def)
qed

end
